theory Spec2Isabelle
  imports Main
begin

section \<open>The type language of the declaration files\<close>

text \<open>
  The repository holds ambient TypeScript declarations only: \<^verbatim>\<open>src/index.d.ts\<close> and a second,
  shorter declaration file (\<^verbatim>\<open>src/unnamed/part_000\<close>) of the same namespace \<^verbatim>\<open>GMConfig\<close>.
  The program text is therefore a set of type declarations, and what it "does" is to admit
  or reject values.  The declarations are embedded as terms of the datatypes below, one
  constant per declaration, and the operations of the type language that the declarations
  use (\<^verbatim>\<open>keyof\<close>, instantiation of type parameters, \<^verbatim>\<open>extends\<close>, optional properties, tuple
  types with a rest element) are functions over them.
\<close>

text \<open>A type parameter \<^verbatim>\<open>T extends C = D\<close>: name, constraint, default.\<close>

datatype 'a tparam = TParam (tp_name: string) (tp_constraint: "'a option") (tp_default: "'a option")

text \<open>A parameter of a signature; the flag marks a rest parameter \<^verbatim>\<open>...args\<close>.\<close>

datatype 'a param = Param string bool 'a

text \<open>
  A member of an interface or object type: a property signature (\<^verbatim>\<open>name?: T\<close>, the flag is
  the question mark), a method signature, or a construct signature \<^verbatim>\<open>new (...): T\<close>.
  The type of a method or construct signature is a \<open>TFun\<close>.
\<close>

datatype 'a member =
    Prop string bool 'a
  | Method string 'a
  | Construct 'a

text \<open>
  Types.  \<open>TNamed\<close> is a reference by name, with type arguments, to an interface of the
  file or to a type of the host library (\<^verbatim>\<open>Element\<close>, \<^verbatim>\<open>Record<K, V>\<close>).  Type aliases are
  transparent in TypeScript, so an alias is a constant of type \<open>ty\<close> and is used by value.
  \<open>TTuple ts r\<close> is the tuple type with the fixed elements \<open>ts\<close> and, when \<open>r\<close> is given, a
  rest element \<^verbatim>\<open>...r\<close>; the labels of a labelled tuple have no effect on typing and are
  left out.
\<close>

datatype ty =
    TString | TNumber | TBoolean | TUndefined | TUnknown | TVoid
  | TLit string
  | TVar string
  | TNamed string "ty list"
  | TUnion "ty list"
  | TInter "ty list"
  | TArray ty
  | TTuple "ty list" "ty option"
  | TReadonly ty
  | TFun "ty tparam list" "ty param list" ty
  | TObj "ty member list"
  | TKeyOf ty
  | TIndex ty ty
  | TMapped string ty ty

text \<open>An interface declaration: name, type parameters, the interfaces it extends, its own members.\<close>

datatype iface =
  Interface (i_name: string) (i_tparams: "ty tparam list") (i_extends: "iface list")
    (i_members: "ty member list")

text \<open>
  Values, as far as the declared types tell them apart.  A number carries an integer here:
  no declaration of the files looks at the value of a number, only at its being one.
  \<open>VFun\<close> is any function, \<open>VHost n\<close> an object of the host environment of class \<open>n\<close>
  (a DOM element, say).
\<close>

datatype val =
    VUndefined
  | VStr string
  | VNum int
  | VBool bool
  | VFun
  | VArr "val list"
  | VObj "(string \<times> val) list"
  | VHost string


section \<open>The declarations of \<^verbatim>\<open>src/index.d.ts\<close>\<close>

definition LabelPosition :: ty where
  "LabelPosition = TUnion [TLit ''above'', TLit ''below'', TLit ''right'', TLit ''left'']"

definition LabelSection :: ty where
  "LabelSection =
     TUnion [TString, TNamed ''Element'' [],
             TTuple [TUnion [TString, TNamed ''Element'' []],
                     TUnion [TString, TNamed ''Element'' [], TUndefined]] None]"

definition Type :: ty where
  "Type = TKeyOf (TNamed ''TypeMap'' [])"

definition TypeMap :: iface where
  "TypeMap = Interface ''TypeMap'' [] []
     [Prop ''text'' False TString,
      Prop ''textarea'' False TString,
      Prop ''unsigned int'' False TNumber,
      Prop ''int'' False TNumber,
      Prop ''float'' False TNumber,
      Prop ''checkbox'' False TBoolean,
      Prop ''radio'' False TString,
      Prop ''select'' False TUndefined,
      Prop ''button'' False TUndefined,
      Prop ''hidden'' False TUnknown]"

definition Handle :: ty where
  "Handle = TFun [] [] TVoid"

definition FieldPropertyValue :: ty where
  "FieldPropertyValue = TUnion [TString, TNamed ''ReadonlyArray'' [TString], TNumber, Handle]"

definition Field_decl :: iface where
  "Field_decl = Interface ''Field'' [] []
     [Prop ''type'' False Type,
      Prop ''label'' False TString,
      Prop ''labelPos'' True TString,
      Prop ''section'' True LabelSection]"

subsection \<open>namespace \<^verbatim>\<open>fields\<close>\<close>

definition TextField :: iface where
  "TextField = Interface ''TextField'' [] [Field_decl]
     [Prop ''type'' False (TLit ''text''),
      Prop ''default'' False TString,
      Prop ''size'' True TNumber]"

definition TextAreaField :: iface where
  "TextAreaField = Interface ''TextAreaField'' [] [Field_decl]
     [Prop ''type'' False (TLit ''textarea''),
      Prop ''default'' False TString,
      Prop ''size'' True TNumber]"

definition UIntField :: iface where
  "UIntField = Interface ''UIntField'' [] [Field_decl]
     [Prop ''type'' False (TLit ''unsigned int''),
      Prop ''default'' False TNumber,
      Prop ''min'' True TNumber,
      Prop ''max'' True TNumber]"

definition IntField :: iface where
  "IntField = Interface ''IntField'' [] [Field_decl]
     [Prop ''type'' False (TLit ''int''),
      Prop ''min'' True TNumber,
      Prop ''max'' True TNumber,
      Prop ''default'' False TNumber]"

definition FloatField :: iface where
  "FloatField = Interface ''FloatField'' [] [Field_decl]
     [Prop ''type'' False (TLit ''float''),
      Prop ''default'' False TNumber]"

definition CheckboxField :: iface where
  "CheckboxField = Interface ''CheckboxField'' [] [Field_decl]
     [Prop ''type'' False (TLit ''checkbox''),
      Prop ''default'' False TBoolean]"

definition SelectField :: iface where
  "SelectField = Interface ''SelectField'' [] [Field_decl]
     [Prop ''type'' False (TLit ''checkbox''),
      Prop ''options'' False (TReadonly (TTuple [TString] (Some (TArray TString)))),
      Prop ''default'' True TString]"

definition RadioField :: iface where
  "RadioField = Interface ''RadioField'' [] [Field_decl]
     [Prop ''type'' False (TLit ''radio''),
      Prop ''options'' False (TReadonly (TTuple [TString] (Some (TArray TString)))),
      Prop ''default'' True TString]"

definition HiddenField :: iface where
  "HiddenField = Interface ''HiddenField'' [] [Field_decl]
     [Prop ''type'' False (TLit ''hidden''),
      Prop ''value'' False TString]"

definition ButtonField :: iface where
  "ButtonField = Interface ''ButtonField'' [] [Field_decl]
     [Prop ''type'' False (TLit ''button''),
      Prop ''size'' True TNumber,
      Prop ''click'' False (TFun [] [] TVoid)]"

text \<open>The interfaces of the namespace, in the order of the file.\<close>

definition fields :: "iface list" where
  "fields = [TextField, TextAreaField, UIntField, IntField, FloatField, CheckboxField,
             SelectField, RadioField, HiddenField, ButtonField]"

subsection \<open>namespace \<^verbatim>\<open>events\<close>\<close>

definition OnInit :: ty where
  "OnInit = TFun [] [] TVoid"

definition OnOpen :: ty where
  "OnOpen = TFun []
     [Param ''document'' False (TNamed ''Document'' []),
      Param ''window'' False (TNamed ''Window'' []),
      Param ''frame'' False (TNamed ''HTMLElement'' [])] TVoid"

text \<open>\<^verbatim>\<open>OnSave<F extends InitOptions['fields']>\<close> is a generic alias: a function of its argument.\<close>

definition OnSave :: "ty \<Rightarrow> ty" where
  "OnSave F = TFun [] [Param ''fields'' False F] TVoid"

definition OnClose :: ty where
  "OnClose = TFun [] [] TVoid"

definition OnReset :: ty where
  "OnReset = TFun [] [] TVoid"

subsection \<open>Events, InitOptions, Instance, Constructor\<close>

definition Events :: iface where
  "Events = Interface ''Events''
     [TParam ''F'' (Some (TIndex (TNamed ''InitOptions'' []) (TLit ''fields'')))
                   (Some (TIndex (TNamed ''InitOptions'' []) (TLit ''fields'')))] []
     [Prop ''onInit'' True OnInit,
      Prop ''onOpen'' True OnOpen,
      Prop ''onSave'' True (OnSave (TVar ''F'')),
      Prop ''onClose'' True OnClose,
      Prop ''onReset'' True OnReset]"

definition ConfigFields :: ty where
  "ConfigFields = TNamed ''Record'' [TString, TNamed ''Field'' []]"

definition InitOptions :: iface where
  "InitOptions = Interface ''InitOptions'' [] []
     [Prop ''id'' False TString,
      Prop ''title'' False TString,
      Prop ''fields'' False ConfigFields,
      Prop ''css'' False TString,
      Prop ''events'' True
        (TNamed ''Events'' [TIndex (TNamed ''InitOptions'' []) (TLit ''fields'')]),
      Prop ''frame'' True (TNamed ''HTMLElement'' [])]"

definition Instance :: iface where
  "Instance = Interface ''Instance'' [TParam ''F'' (Some ConfigFields) (Some ConfigFields)] []
     [Method ''init'' (TFun [] [Param ''options'' False (TNamed ''InitOptions'' [])] TVoid),
      Method ''open'' (TFun [] [] TVoid),
      Method ''set''
        (TFun [TParam ''FK'' (Some (TKeyOf (TVar ''F''))) None,
               TParam ''FKT'' (Some (TIndex (TVar ''F'') (TVar ''FK''))) None]
              [Param ''key'' False (TVar ''FK''), Param ''value'' False (TVar ''FKT'')] TVoid),
      Method ''init'' (TFun [] [] TVoid),
      Method ''open'' (TFun [] [] TVoid),
      Method ''save'' (TFun [] [] TVoid),
      Method ''close'' (TFun [] [] TVoid),
      Method ''set''
        (TFun [TParam ''T'' None None]
              [Param ''key'' False TString, Param ''value'' False (TVar ''T'')] TVoid),
      Method ''get''
        (TFun [TParam ''T'' None None]
              [Param ''key'' False TString] (TUnion [TVar ''T'', TUndefined])),
      Method ''write'' (TFun [] [] TVoid),
      Method ''read'' (TFun [] [] TVoid),
      Method ''reset'' (TFun [] [] TVoid),
      Method ''create''
        (TFun [TParam ''T'' (Some (TKeyOf (TNamed ''ElementTagNameMap'' []))) None]
              [Param ''args'' True (TTuple [TVar ''T'', TString] None)]
              (TIndex (TNamed ''ElementTagNameMap'' []) (TVar ''T''))),
      Method ''create''
        (TFun [TParam ''T'' (Some (TKeyOf (TNamed ''ElementTagNameMap'' []))) None,
               TParam ''P''
                 (Some (TNamed ''Partial''
                    [TMapped ''Key''
                       (TKeyOf (TIndex (TNamed ''ElementTagNameMap'' []) (TVar ''T'')))
                       (TIndex (TIndex (TNamed ''ElementTagNameMap'' []) (TVar ''T''))
                               (TVar ''Key''))])) None]
              [Param ''args'' True (TTuple [TVar ''T'', TVar ''P''] None)]
              (TInter [TIndex (TNamed ''ElementTagNameMap'' []) (TVar ''T''), TVar ''P''])),
      Method ''create''
        (TFun [] [Param ''args'' True (TTuple [TString] None)] (TNamed ''Text'' [])),
      Method ''center'' (TFun [] [] TVoid),
      Method ''remove'' (TFun [] [Param ''el'' False (TNamed ''Element'' [])] TVoid),
      Prop ''onOpen'' False OnOpen,
      Prop ''onSave'' False (OnSave (TVar ''F'')),
      Prop ''onClose'' False OnClose,
      Prop ''onReset'' False OnReset,
      Prop ''id'' False TString,
      Prop ''fields'' False (TVar ''F''),
      Prop ''title'' False TString,
      Prop ''css'' False TString]"

definition Constructor :: iface where
  "Constructor = Interface ''Constructor'' [] []
     [Construct
        (TFun [TParam ''C'' (Some (TNamed ''InitOptions'' [])) None]
              [Param ''config'' False (TVar ''C'')]
              (TNamed ''Instance'' [TIndex (TVar ''C'') (TLit ''fields'')]))]"

text \<open>The interfaces that a name of the namespace \<^verbatim>\<open>GMConfig\<close> refers to.\<close>

definition GMConfig :: "iface list" where
  "GMConfig = [TypeMap, Field_decl, Events, InitOptions, Instance, Constructor]"

text \<open>The two global bindings.\<close>

definition GM_config :: ty where
  "GM_config = TNamed ''Instance'' []"

definition GM_configInit :: ty where
  "GM_configInit = TNamed ''Constructor'' []"


section \<open>The declarations of \<^verbatim>\<open>src/unnamed/part_000\<close>\<close>

text \<open>
  The second file declares the same namespace again, with fewer members.  Its
  \<^verbatim>\<open>TypeMap\<close> is a type alias of an object type, not an interface, and its \<^verbatim>\<open>Field\<close> is
  generic in the discriminant.
\<close>

definition LabelPosition_part_000 :: ty where
  "LabelPosition_part_000 = TUnion [TLit ''right'', TLit ''below'', TLit ''above'']"

definition TypeMap_part_000 :: ty where
  "TypeMap_part_000 = TObj
     [Prop ''text'' False TString,
      Prop ''textarea'' False TString,
      Prop ''unsigned int'' False TNumber,
      Prop ''float'' False TNumber,
      Prop ''checkbox'' False TBoolean,
      Prop ''radio'' False TString,
      Prop ''select'' False TUndefined,
      Prop ''button'' False TUndefined,
      Prop ''hidden'' False TUnknown]"

definition Type_part_000 :: ty where
  "Type_part_000 = TKeyOf TypeMap_part_000"

definition Field_part_000 :: iface where
  "Field_part_000 = Interface ''Field''
     [TParam ''T'' (Some Type_part_000) (Some Type_part_000)] []
     [Prop ''label'' False TString,
      Prop ''labelPos'' True TString,
      Prop ''type'' False (TVar ''T''),
      Prop ''section'' True TString]"

definition GMConfig_part_000 :: "iface list" where
  "GMConfig_part_000 = [Field_part_000]"


section \<open>Operations of the type language\<close>

subsection \<open>Members and names\<close>

fun prop_named :: "string \<Rightarrow> ty member \<Rightarrow> bool" where
  "prop_named n (Prop k opt t) = (k = n)"
| "prop_named n (Method k t) = False"
| "prop_named n (Construct t) = False"

fun optional_prop :: "string \<Rightarrow> ty member \<Rightarrow> bool" where
  "optional_prop n (Prop k opt t) = (k = n \<and> opt)"
| "optional_prop n (Method k t) = False"
| "optional_prop n (Construct t) = False"

fun required_prop :: "string \<Rightarrow> ty member \<Rightarrow> bool" where
  "required_prop n (Prop k opt t) = (k = n \<and> \<not> opt)"
| "required_prop n (Method k t) = False"
| "required_prop n (Construct t) = False"

text \<open>The key a member contributes to \<^verbatim>\<open>keyof\<close>: a construct signature has none.\<close>

fun member_key :: "ty member \<Rightarrow> string list" where
  "member_key (Prop k opt t) = [k]"
| "member_key (Method k t) = [k]"
| "member_key (Construct t) = []"

fun method_name :: "ty member \<Rightarrow> string list" where
  "method_name (Method k t) = [k]"
| "method_name (Prop k opt t) = []"
| "method_name (Construct t) = []"

fun method_sig :: "string \<Rightarrow> ty member \<Rightarrow> ty list" where
  "method_sig n (Method k t) = (if k = n then [t] else [])"
| "method_sig n (Prop k opt t) = []"
| "method_sig n (Construct t) = []"

fun construct_sig :: "ty member \<Rightarrow> ty list" where
  "construct_sig (Construct t) = [t]"
| "construct_sig (Prop k opt t) = []"
| "construct_sig (Method k t) = []"

fun is_fun_ty :: "ty \<Rightarrow> bool" where
  "is_fun_ty (TFun tps ps r) = True"
| "is_fun_ty t = False"

text \<open>A property whose type is a function type holds a callback; any other property is data.\<close>

fun callback_prop :: "ty member \<Rightarrow> (string \<times> ty) list" where
  "callback_prop (Prop k opt t) = (if is_fun_ty t then [(k, t)] else [])"
| "callback_prop (Method k t) = []"
| "callback_prop (Construct t) = []"

fun data_prop :: "ty member \<Rightarrow> (string \<times> ty) list" where
  "data_prop (Prop k opt t) = (if is_fun_ty t then [] else [(k, t)])"
| "data_prop (Method k t) = []"
| "data_prop (Construct t) = []"

definition method_names :: "iface \<Rightarrow> string list" where
  "method_names I = concat (map method_name (i_members I))"

definition method_sigs :: "iface \<Rightarrow> string \<Rightarrow> ty list" where
  "method_sigs I n = concat (map (method_sig n) (i_members I))"

definition construct_sigs :: "iface \<Rightarrow> ty list" where
  "construct_sigs I = concat (map construct_sig (i_members I))"

definition callback_props :: "iface \<Rightarrow> (string \<times> ty) list" where
  "callback_props I = concat (map callback_prop (i_members I))"

definition data_props :: "iface \<Rightarrow> (string \<times> ty) list" where
  "data_props I = concat (map data_prop (i_members I))"

definition own_prop :: "iface \<Rightarrow> string \<Rightarrow> ty member option" where
  "own_prop I n = find (prop_named n) (i_members I)"

text \<open>
  The \<^verbatim>\<open>type\<close> discriminant of a field variant: the string literal that the interface itself
  gives to its \<^verbatim>\<open>type\<close> property.
\<close>

definition discriminant :: "iface \<Rightarrow> string option" where
  "discriminant I =
     (case own_prop I ''type'' of
        Some (Prop k opt (TLit l)) \<Rightarrow> Some l
      | _ \<Rightarrow> None)"

text \<open>The members of an interface with those it inherits; its own come first.\<close>

fun all_members :: "iface \<Rightarrow> ty member list" where
  "all_members (Interface n tps exts ms) = ms @ concat (map all_members exts)"

definition lookup_iface :: "iface list \<Rightarrow> string \<Rightarrow> iface option" where
  "lookup_iface env n = find (\<lambda>I. i_name I = n) env"

subsection \<open>\<^verbatim>\<open>keyof\<close> and the literals of a type\<close>

text \<open>
  \<^verbatim>\<open>keyof T\<close> for an object type or a declared interface: the names of its members.  For
  any other type the keys are not known from the file (\<open>None\<close>).
\<close>

fun keys_of :: "iface list \<Rightarrow> ty \<Rightarrow> string list option" where
  "keys_of env (TObj ms) = Some (concat (map member_key ms))"
| "keys_of env (TNamed n args) =
     (case lookup_iface env n of
        Some I \<Rightarrow> Some (concat (map member_key (all_members I)))
      | None \<Rightarrow> None)"
| "keys_of env t = None"

text \<open>The string literals a type ranges over, when it is built from literals only.\<close>

fun literals :: "iface list \<Rightarrow> ty \<Rightarrow> string list option" where
  "literals env (TLit l) = Some [l]"
| "literals env (TKeyOf t) = keys_of env t"
| "literals env (TUnion ts) = map_option concat (those (map (literals env) ts))"
| "literals env t = None"

subsection \<open>Instantiating type parameters\<close>

primrec subst :: "ty \<Rightarrow> (string \<times> ty) list \<Rightarrow> ty" where
  "subst TString s = TString"
| "subst TNumber s = TNumber"
| "subst TBoolean s = TBoolean"
| "subst TUndefined s = TUndefined"
| "subst TUnknown s = TUnknown"
| "subst TVoid s = TVoid"
| "subst (TLit l) s = TLit l"
| "subst (TVar x) s = (case map_of s x of Some t \<Rightarrow> t | None \<Rightarrow> TVar x)"
| "subst (TNamed n ts) s = TNamed n (map (\<lambda>t. subst t s) ts)"
| "subst (TUnion ts) s = TUnion (map (\<lambda>t. subst t s) ts)"
| "subst (TInter ts) s = TInter (map (\<lambda>t. subst t s) ts)"
| "subst (TArray t) s = TArray (subst t s)"
| "subst (TTuple ts r) s = TTuple (map (\<lambda>t. subst t s) ts) (map_option (\<lambda>t. subst t s) r)"
| "subst (TReadonly t) s = TReadonly (subst t s)"
| "subst (TFun tps ps r) s =
     (let s' = filter (\<lambda>b. fst b \<notin> set (map tp_name tps)) s
      in TFun (map (map_tparam (\<lambda>t. subst t s')) tps)
              (map (map_param (\<lambda>t. subst t s')) ps) (subst r s'))"
| "subst (TObj ms) s = TObj (map (map_member (\<lambda>t. subst t s)) ms)"
| "subst (TKeyOf t) s = TKeyOf (subst t s)"
| "subst (TIndex t k) s = TIndex (subst t s) (subst k s)"
| "subst (TMapped x k t) s =
     (let s' = filter (\<lambda>b. fst b \<noteq> x) s in TMapped x (subst k s') (subst t s'))"

text \<open>
  Type arguments bound to type parameters, in order; a parameter with no argument takes
  its default, and stays a variable when it has none.
\<close>

fun bind_tparams :: "ty tparam list \<Rightarrow> ty list \<Rightarrow> (string \<times> ty) list" where
  "bind_tparams [] args = []"
| "bind_tparams (TParam x c d # tps) (a # args) = (x, a) # bind_tparams tps args"
| "bind_tparams (TParam x c (Some d) # tps) [] = (x, d) # bind_tparams tps []"
| "bind_tparams (TParam x c None # tps) [] = bind_tparams tps []"

text \<open>The result type of a signature called with explicit type arguments.\<close>

fun instantiate :: "ty \<Rightarrow> ty list \<Rightarrow> ty option" where
  "instantiate (TFun tps ps r) args = Some (subst r (bind_tparams tps args))"
| "instantiate t args = None"

text \<open>\<^verbatim>\<open>new X<args>(...)\<close> for a value of an interface with one construct signature.\<close>

definition new_type :: "iface \<Rightarrow> ty list \<Rightarrow> ty option" where
  "new_type I args =
     (case construct_sigs I of
        [sg] \<Rightarrow> instantiate sg args
      | _ \<Rightarrow> None)"

text \<open>
  The type a member access \<^verbatim>\<open>x.k\<close> has, read off a list of members in which a member
  declared earlier hides a later one of the same name (an interface's own members come
  before those it inherits).  An optional property \<^verbatim>\<open>k?: T\<close> reads as \<^verbatim>\<open>T | undefined\<close>.
  A method reads as its signature, and as the intersection of its signatures when it is
  overloaded.  A construct signature has no name and is no member access.
\<close>

fun has_key :: "string \<Rightarrow> ty member \<Rightarrow> bool" where
  "has_key n (Prop k opt t) = (k = n)"
| "has_key n (Method k t) = (k = n)"
| "has_key n (Construct t) = False"

definition members_type :: "ty member list \<Rightarrow> string \<Rightarrow> ty option" where
  "members_type ms n =
     (case find (has_key n) ms of
        None \<Rightarrow> None
      | Some (Prop k opt t) \<Rightarrow> Some (if opt then TUnion [t, TUndefined] else t)
      | Some (Method k t) \<Rightarrow>
          (case concat (map (method_sig n) ms) of
             [sg] \<Rightarrow> Some sg
           | sgs \<Rightarrow> Some (TInter sgs))
      | Some (Construct t) \<Rightarrow> None)"

text \<open>
  The type of the member \<open>k\<close> of a type: of an object type, or of a reference to a
  declared interface, whose type parameters are replaced by the arguments of the reference.
\<close>

fun member_type :: "iface list \<Rightarrow> ty \<Rightarrow> string \<Rightarrow> ty option" where
  "member_type env (TObj ms) k = members_type ms k"
| "member_type env (TNamed n args) k =
     (case lookup_iface env n of
        None \<Rightarrow> None
      | Some I \<Rightarrow>
          map_option (\<lambda>t. subst t (bind_tparams (i_tparams I) args))
            (members_type (all_members I) k))"
| "member_type env t k = None"

text \<open>An indexed access type \<^verbatim>\<open>T['k']\<close> denotes the type of the property \<open>k\<close> of \<open>T\<close>.\<close>

fun resolve :: "iface list \<Rightarrow> ty \<Rightarrow> ty option" where
  "resolve env (TIndex t (TLit k)) = member_type env t k"
| "resolve env t = Some t"

text \<open>
  \<^verbatim>\<open>new GM_configInit(config)\<close> with \<^verbatim>\<open>config: C\<close>, then reading \<^verbatim>\<open>.fields\<close> of the result:
  the type of that expression.
\<close>

definition constructed_fields :: "ty \<Rightarrow> ty option" where
  "constructed_fields C =
     (case GM_configInit of
        TNamed n args \<Rightarrow>
          (case lookup_iface GMConfig n of
             Some K \<Rightarrow>
               (case new_type K [C] of
                  Some t \<Rightarrow> member_type GMConfig t ''fields''
                | None \<Rightarrow> None)
           | None \<Rightarrow> None)
      | _ \<Rightarrow> None)"

subsection \<open>Which values a type admits\<close>

definition obj_get :: "val \<Rightarrow> string \<Rightarrow> val option" where
  "obj_get v k = (case v of VObj kvs \<Rightarrow> map_of kvs k | _ \<Rightarrow> None)"

fun is_obj :: "val \<Rightarrow> bool" where
  "is_obj (VObj kvs) = True"
| "is_obj v = False"

text \<open>
  \<open>conforms env ext v t\<close>: the value \<open>v\<close> is in the type \<open>t\<close>.  Typing is structural: an
  object may have more properties than the type names.  A required property must be
  there with a value of its type; an optional one may be absent or \<^verbatim>\<open>undefined\<close>.  A tuple
  type with a rest element admits the arrays that start with its fixed elements and go
  on with elements of the rest.  A function carries no signature at run time, so every
  function is in every function type.  The types the file only names (the host library's
  \<^verbatim>\<open>Element\<close>, \<^verbatim>\<open>Record\<close>, an uninstantiated type variable, ...) are not declared in the
  repository: \<open>ext\<close> decides them and is a parameter of every statement below.
\<close>

fun conforms :: "iface list \<Rightarrow> (ty \<Rightarrow> val \<Rightarrow> bool) \<Rightarrow> val \<Rightarrow> ty \<Rightarrow> bool" where
  "conforms env ext v TString = (case v of VStr s \<Rightarrow> True | _ \<Rightarrow> False)"
| "conforms env ext v TNumber = (case v of VNum n \<Rightarrow> True | _ \<Rightarrow> False)"
| "conforms env ext v TBoolean = (case v of VBool b \<Rightarrow> True | _ \<Rightarrow> False)"
| "conforms env ext v TUndefined = (v = VUndefined)"
| "conforms env ext v TUnknown = True"
| "conforms env ext v TVoid = (v = VUndefined)"
| "conforms env ext v (TLit l) = (v = VStr l)"
| "conforms env ext v (TUnion ts) = list_ex (\<lambda>t. conforms env ext v t) ts"
| "conforms env ext v (TInter ts) = list_all (\<lambda>t. conforms env ext v t) ts"
| "conforms env ext v (TArray t) =
     (case v of VArr xs \<Rightarrow> list_all (\<lambda>x. conforms env ext x t) xs | _ \<Rightarrow> False)"
| "conforms env ext v (TTuple ts r) =
     (case v of
        VArr xs \<Rightarrow>
          length ts \<le> length xs
          \<and> list_all2 (\<lambda>x t. conforms env ext x t) (take (length ts) xs) ts
          \<and> (case r of
                None \<Rightarrow> length xs = length ts
              | Some rt \<Rightarrow> conforms env ext (VArr (drop (length ts) xs)) rt)
      | _ \<Rightarrow> False)"
| "conforms env ext v (TReadonly t) = conforms env ext v t"
| "conforms env ext v (TFun tps ps r) = (v = VFun)"
| "conforms env ext v (TObj ms) =
     (is_obj v \<and>
      list_all
        (\<lambda>m. case m of
           Prop k opt t \<Rightarrow>
             (case obj_get v k of
                None \<Rightarrow> opt
              | Some x \<Rightarrow> (opt \<and> x = VUndefined) \<or> conforms env ext x t)
         | Method k t \<Rightarrow>
             (case obj_get v k of None \<Rightarrow> False | Some x \<Rightarrow> conforms env ext x t)
         | Construct t \<Rightarrow> False) ms)"
| "conforms env ext v (TKeyOf t) =
     (case keys_of env t of
        Some ks \<Rightarrow> list_ex (\<lambda>k. v = VStr k) ks
      | None \<Rightarrow> ext (TKeyOf t) v)"
| "conforms env ext v (TVar x) = ext (TVar x) v"
| "conforms env ext v (TNamed n args) = ext (TNamed n args) v"
| "conforms env ext v (TIndex t k) = ext (TIndex t k) v"
| "conforms env ext v (TMapped x k t) = ext (TMapped x k t) v"

text \<open>
  A value is in an interface, taken at the type arguments \<open>args\<close>, when it is in every
  interface that one extends and has the interface's own members.
\<close>

fun conforms_iface ::
  "iface list \<Rightarrow> (ty \<Rightarrow> val \<Rightarrow> bool) \<Rightarrow> val \<Rightarrow> iface \<Rightarrow> ty list \<Rightarrow> bool" where
  "conforms_iface env ext v (Interface n tps exts ms) args =
     (list_all (\<lambda>p. conforms_iface env ext v p []) exts
      \<and> conforms env ext v (subst (TObj ms) (bind_tparams tps args)))"


section \<open>The vocabularies of the specification\<close>

text \<open>
  The specification's list of field types.  It writes \<^verbatim>\<open>unsigned-int\<close> for the type whose
  name in the declarations is the string \<^verbatim>\<open>'unsigned int'\<close>; the name of the declarations
  is used here.
\<close>

definition field_type_vocabulary :: "string list" where
  "field_type_vocabulary =
     [''text'', ''textarea'', ''unsigned int'', ''int'', ''float'', ''checkbox'', ''radio'',
      ''select'', ''hidden'', ''button'']"

definition lifecycle_callbacks :: "string list" where
  "lifecycle_callbacks = [''onInit'', ''onOpen'', ''onSave'', ''onClose'', ''onReset'']"

definition instance_operations :: "string list" where
  "instance_operations =
     [''init'', ''open'', ''close'', ''save'', ''read'', ''write'', ''reset'', ''get'', ''set'',
      ''create'', ''center'', ''remove'']"


section \<open>Helper facts\<close>

lemma TypeMap_keys:
  "keys_of GMConfig (TNamed ''TypeMap'' []) =
     Some [''text'', ''textarea'', ''unsigned int'', ''int'', ''float'', ''checkbox'', ''radio'',
           ''select'', ''button'', ''hidden'']"
  by (simp add: GMConfig_def lookup_iface_def TypeMap_def)

lemma TypeMap_part_000_keys:
  "keys_of GMConfig_part_000 TypeMap_part_000 =
     Some [''text'', ''textarea'', ''unsigned int'', ''float'', ''checkbox'', ''radio'',
           ''select'', ''button'', ''hidden'']"
  by (simp add: TypeMap_part_000_def)

lemma fields_names:
  "map i_name fields =
     [''TextField'', ''TextAreaField'', ''UIntField'', ''IntField'', ''FloatField'',
      ''CheckboxField'', ''SelectField'', ''RadioField'', ''HiddenField'', ''ButtonField'']"
  by (simp add: fields_def TextField_def TextAreaField_def UIntField_def IntField_def
      FloatField_def CheckboxField_def SelectField_def RadioField_def HiddenField_def
      ButtonField_def)

lemma fields_discriminants:
  "map discriminant fields =
     [Some ''text'', Some ''textarea'', Some ''unsigned int'', Some ''int'', Some ''float'',
      Some ''checkbox'', Some ''checkbox'', Some ''radio'', Some ''hidden'', Some ''button'']"
  by (simp add: fields_def discriminant_def own_prop_def TextField_def TextAreaField_def
      UIntField_def IntField_def FloatField_def CheckboxField_def SelectField_def
      RadioField_def HiddenField_def ButtonField_def)

lemma fields_discriminants_keys:
  "list_all (\<lambda>d. \<exists>l. d = Some l \<and> l \<in> set [''text'', ''textarea'', ''unsigned int'', ''int'',
       ''float'', ''checkbox'', ''radio'', ''select'', ''button'', ''hidden''])
     (map discriminant fields)"
  unfolding fields_discriminants by simp

lemma key_conforms_Type:
  assumes "keys_of GMConfig (TNamed ''TypeMap'' []) = Some ks" "l \<in> set ks"
  shows "conforms GMConfig ext (VStr l) Type"
  using assms by (auto simp add: Type_def list_ex_iff simp del: keys_of.simps)

lemma Instance_method_names:
  "method_names Instance =
     [''init'', ''open'', ''set'', ''init'', ''open'', ''save'', ''close'', ''set'', ''get'',
      ''write'', ''read'', ''reset'', ''create'', ''create'', ''create'', ''center'', ''remove'']"
  by (simp add: method_names_def Instance_def)

lemma conforms_TString_VStr: "conforms env ext v TString \<Longrightarrow> \<exists>s. v = VStr s"
  by (cases v) simp_all

lemma all_TString_map_VStr:
  "list_all (\<lambda>x. conforms env ext x TString) xs \<Longrightarrow> \<exists>ss. xs = map VStr ss"
proof (induction xs)
  case Nil
  then show ?case by simp
next
  case (Cons x xs)
  from Cons.prems obtain s where s: "x = VStr s"
    using conforms_TString_VStr by auto
  from Cons.prems have "list_all (\<lambda>x. conforms env ext x TString) xs" by simp
  with Cons.IH obtain ss where "xs = map VStr ss" by blast
  with s have "x # xs = map VStr (s # ss)" by simp
  then show ?case by (rule exI)
qed

text \<open>The values of \<^verbatim>\<open>readonly [string, ...string[]]\<close> are the non-empty arrays of strings.\<close>

lemma nonempty_strings:
  assumes "conforms env ext x (TReadonly (TTuple [TString] (Some (TArray TString))))"
  shows "\<exists>s ss. x = VArr (map VStr (s # ss))"
proof (cases x)
  case (VArr xs)
  with assms have len: "1 \<le> length xs"
    and hd: "list_all2 (\<lambda>x t. conforms env ext x t) (take 1 xs) [TString]"
    and tl: "list_all (\<lambda>x. conforms env ext x TString) (drop 1 xs)"
    by simp_all
  from len obtain y ys where xs: "xs = y # ys" by (cases xs) auto
  with hd have "conforms env ext y TString" by simp
  then obtain s where s: "y = VStr s" using conforms_TString_VStr by blast
  from tl xs obtain ss where "ys = map VStr ss" using all_TString_map_VStr by fastforce
  with s xs VArr have "x = VArr (map VStr (s # ss))" by simp
  then show ?thesis by blast
qed (use assms in simp_all)

text \<open>A value of an object type has each required property, with a value of its type.\<close>

lemma required_member:
  assumes "conforms env ext v (TObj ms)" "Prop k False t \<in> set ms"
  shows "\<exists>x. obj_get v k = Some x \<and> conforms env ext x t"
proof -
  from assms have "case obj_get v k of None \<Rightarrow> False
      | Some x \<Rightarrow> (False \<and> x = VUndefined) \<or> conforms env ext x t"
    by (auto simp add: list_all_iff)
  then show ?thesis by (cases "obj_get v k") auto
qed


section \<open>The claims\<close>

subsection \<open>C1: the constructor and the \<^verbatim>\<open>fields\<close> member\<close>

text \<open>
  C1.  For every options type \<open>C\<close> given to the construct signature of \<^verbatim>\<open>Constructor\<close>, the
  result is \<^verbatim>\<open>Instance<C['fields']>\<close>, and the \<^verbatim>\<open>fields\<close> member of that instance has the
  type \<^verbatim>\<open>C['fields']\<close>.  Where \<open>C\<close> has a \<^verbatim>\<open>fields\<close> property of type \<open>F\<close>, the member
  resolves to \<open>F\<close> itself: constructing and then reading \<^verbatim>\<open>fields\<close> gives the shape back.
\<close>

theorem constructor_fields_roundtrip:
  "new_type Constructor [C] = Some (TNamed ''Instance'' [TIndex C (TLit ''fields'')])
   \<and> constructed_fields C = Some (TIndex C (TLit ''fields''))
   \<and> (member_type GMConfig C ''fields'' = Some F \<longrightarrow>
        Option.bind (constructed_fields C) (resolve GMConfig) = Some F)"
  by (simp add: constructed_fields_def GM_configInit_def new_type_def construct_sigs_def
      members_type_def Constructor_def GMConfig_def lookup_iface_def TypeMap_def Field_decl_def Events_def
      InitOptions_def Instance_def)

text \<open>
  At the options type \<^verbatim>\<open>{ id: string; title: string; fields: { name: TextField }; css: string }\<close>
  the constructed instance's \<^verbatim>\<open>fields\<close> has the type \<^verbatim>\<open>{ name: TextField }\<close>.
\<close>

theorem constructor_fields_roundtrip_witness:
  "member_type GMConfig
      (TObj [Prop ''id'' False TString, Prop ''title'' False TString,
             Prop ''fields'' False (TObj [Prop ''name'' False (TNamed ''TextField'' [])]),
             Prop ''css'' False TString]) ''fields''
     = Some (TObj [Prop ''name'' False (TNamed ''TextField'' [])])
   \<and> Option.bind (constructed_fields
        (TObj [Prop ''id'' False TString, Prop ''title'' False TString,
               Prop ''fields'' False (TObj [Prop ''name'' False (TNamed ''TextField'' [])]),
               Prop ''css'' False TString])) (resolve GMConfig)
     = Some (TObj [Prop ''name'' False (TNamed ''TextField'' [])])"
proof -
  let ?C = "TObj [Prop ''id'' False TString, Prop ''title'' False TString,
             Prop ''fields'' False (TObj [Prop ''name'' False (TNamed ''TextField'' [])]),
             Prop ''css'' False TString]"
  have h: "member_type GMConfig ?C ''fields''
     = Some (TObj [Prop ''name'' False (TNamed ''TextField'' [])])"
    by (simp add: members_type_def)
  from constructor_fields_roundtrip [of ?C "TObj [Prop ''name'' False (TNamed ''TextField'' [])]"] h
  show ?thesis by blast
qed

subsection \<open>C2: the keys of \<^verbatim>\<open>TypeMap\<close>\<close>

text \<open>
  C2 says that every \<^verbatim>\<open>TypeMap\<close> declaration has exactly the ten type names as its keys.
  The \<^verbatim>\<open>TypeMap\<close> of the second file has no key \<^verbatim>\<open>int\<close>: its set of keys is not the
  vocabulary.
\<close>

theorem TypeMap_part_000_not_vocabulary:
  "map_option set (keys_of GMConfig_part_000 TypeMap_part_000)
     \<noteq> Some (set field_type_vocabulary)"
  by code_simp

text \<open>
  C2, as amended.  The \<^verbatim>\<open>TypeMap\<close> of \<^verbatim>\<open>index.d.ts\<close> has exactly the ten keys of the
  vocabulary (the type written unsigned-int is the key \<^verbatim>\<open>'unsigned int'\<close>), and its \<^verbatim>\<open>Type\<close>
  alias ranges over exactly them.  The \<^verbatim>\<open>TypeMap\<close> of the second file has nine keys, the
  vocabulary without \<^verbatim>\<open>int\<close>, and its \<^verbatim>\<open>Type\<close> alias ranges over those nine.
\<close>

theorem TypeMap_keys_by_file:
  "keys_of GMConfig (TNamed ''TypeMap'' []) =
      Some [''text'', ''textarea'', ''unsigned int'', ''int'', ''float'', ''checkbox'', ''radio'',
            ''select'', ''button'', ''hidden'']
   \<and> map_option set (keys_of GMConfig (TNamed ''TypeMap'' [])) = Some (set field_type_vocabulary)
   \<and> literals GMConfig Type = keys_of GMConfig (TNamed ''TypeMap'' [])
   \<and> keys_of GMConfig_part_000 TypeMap_part_000 =
      Some [''text'', ''textarea'', ''unsigned int'', ''float'', ''checkbox'', ''radio'',
            ''select'', ''button'', ''hidden'']
   \<and> map_option set (keys_of GMConfig_part_000 TypeMap_part_000)
       = Some (set field_type_vocabulary - {''int''})
   \<and> literals GMConfig_part_000 Type_part_000 = keys_of GMConfig_part_000 TypeMap_part_000"
proof -
  have 1: "map_option set (keys_of GMConfig (TNamed ''TypeMap'' []))
       = Some (set field_type_vocabulary)"
    by code_simp
  have 2: "literals GMConfig Type = keys_of GMConfig (TNamed ''TypeMap'' [])"
    by (simp add: Type_def)
  have 3: "map_option set (keys_of GMConfig_part_000 TypeMap_part_000)
       = Some (set field_type_vocabulary - {''int''})"
    by code_simp
  have 4: "literals GMConfig_part_000 Type_part_000
       = keys_of GMConfig_part_000 TypeMap_part_000"
    by (simp add: Type_part_000_def)
  from TypeMap_keys 1 2 TypeMap_part_000_keys 3 4 show ?thesis by blast
qed

subsection \<open>C3: every discriminant is a key of \<^verbatim>\<open>TypeMap\<close>\<close>

text \<open>
  C3.  The namespace \<^verbatim>\<open>fields\<close> declares the ten variants TextField, TextAreaField,
  UIntField, IntField, FloatField, CheckboxField, SelectField, RadioField, HiddenField and
  ButtonField, and for each of them the string literal of its \<^verbatim>\<open>type\<close> property is a key of
  \<^verbatim>\<open>TypeMap\<close>, hence a value of \<^verbatim>\<open>Type\<close>, the type of \<^verbatim>\<open>type\<close> in the \<^verbatim>\<open>Field\<close> it extends.
\<close>

theorem discriminant_is_TypeMap_key:
  "map i_name fields =
     [''TextField'', ''TextAreaField'', ''UIntField'', ''IntField'', ''FloatField'',
      ''CheckboxField'', ''SelectField'', ''RadioField'', ''HiddenField'', ''ButtonField'']
   \<and> (\<forall>I \<in> set fields. \<exists>l ks. discriminant I = Some l
          \<and> keys_of GMConfig (TNamed ''TypeMap'' []) = Some ks \<and> l \<in> set ks
          \<and> conforms GMConfig ext (VStr l) Type)"
proof -
  have "\<exists>l ks. discriminant I = Some l
          \<and> keys_of GMConfig (TNamed ''TypeMap'' []) = Some ks \<and> l \<in> set ks
          \<and> conforms GMConfig ext (VStr l) Type"
    if "I \<in> set fields" for I
  proof -
    from that fields_discriminants_keys obtain l where
      l: "discriminant I = Some l" and
      k: "l \<in> set [''text'', ''textarea'', ''unsigned int'', ''int'',
       ''float'', ''checkbox'', ''radio'', ''select'', ''button'', ''hidden'']"
      unfolding list_all_iff by fastforce
    from key_conforms_Type [OF TypeMap_keys k]
    have "conforms GMConfig ext (VStr l) Type" .
    with l k TypeMap_keys show ?thesis by blast
  qed
  with fields_names show ?thesis by blast
qed

theorem discriminant_is_TypeMap_key_witness:
  "TextField \<in> set fields \<and> discriminant TextField = Some ''text''
   \<and> (\<exists>l ks. discriminant TextField = Some l
          \<and> keys_of GMConfig (TNamed ''TypeMap'' []) = Some ks \<and> l \<in> set ks
          \<and> conforms GMConfig (\<lambda>t v. False) (VStr l) Type)"
proof -
  have h: "TextField \<in> set fields" by (simp add: fields_def)
  have d: "discriminant TextField = Some ''text''"
    by (simp add: discriminant_def own_prop_def TextField_def)
  from discriminant_is_TypeMap_key [of "\<lambda>t v. False"] h d show ?thesis by blast
qed

subsection \<open>C4: \<^verbatim>\<open>SelectField\<close> carries the discriminant \<^verbatim>\<open>'checkbox'\<close>\<close>

text \<open>
  C4.  SelectField is declared with \<^verbatim>\<open>type: 'checkbox'\<close>, the discriminant of CheckboxField;
  \<^verbatim>\<open>select\<close> is a key of \<^verbatim>\<open>TypeMap\<close>, and no variant of the namespace has it as its
  discriminant.  The variants with the discriminant \<^verbatim>\<open>'checkbox'\<close> are CheckboxField and
  SelectField.
\<close>

theorem SelectField_discriminant_checkbox:
  "discriminant SelectField = Some ''checkbox''
   \<and> discriminant CheckboxField = Some ''checkbox''
   \<and> (\<exists>ks. keys_of GMConfig (TNamed ''TypeMap'' []) = Some ks \<and> ''select'' \<in> set ks)
   \<and> filter (\<lambda>d. d = Some ''select'') (map discriminant fields) = []
   \<and> map i_name (filter (\<lambda>I. discriminant I = Some ''checkbox'') fields)
       = [''CheckboxField'', ''SelectField'']"
proof -
  have 1: "discriminant SelectField = Some ''checkbox''"
    by (simp add: discriminant_def own_prop_def SelectField_def)
  have 2: "discriminant CheckboxField = Some ''checkbox''"
    by (simp add: discriminant_def own_prop_def CheckboxField_def)
  have 3: "\<exists>ks. keys_of GMConfig (TNamed ''TypeMap'' []) = Some ks \<and> ''select'' \<in> set ks"
    by (simp add: TypeMap_keys del: keys_of.simps)
  have 4: "filter (\<lambda>d. d = Some ''select'') (map discriminant fields) = []"
    by (simp add: fields_discriminants)
  have 5: "map i_name (filter (\<lambda>I. discriminant I = Some ''checkbox'') fields)
       = [''CheckboxField'', ''SelectField'']"
    by (simp add: fields_def discriminant_def own_prop_def TextField_def TextAreaField_def
      UIntField_def IntField_def FloatField_def CheckboxField_def SelectField_def
      RadioField_def HiddenField_def ButtonField_def)
  from 1 2 3 4 5 show ?thesis by blast
qed

subsection \<open>C5: the members of \<^verbatim>\<open>Instance\<close>\<close>

text \<open>
  C5.  The method signatures of \<^verbatim>\<open>Instance\<close> (seventeen, with overloads and repeats) have
  exactly the twelve names init, open, close, save, read, write, reset, get, set, create,
  center, remove.  Its properties that are not callbacks are exactly id, title, css (each a
  string) and fields (of the type parameter \<^verbatim>\<open>F\<close>, the only one).  The other properties,
  onOpen, onSave, onClose and onReset, have function types: they hold the lifecycle
  callbacks.  The interface has no construct signature and extends nothing, so these are
  all its members.
\<close>

theorem Instance_members:
  "set (method_names Instance) = set instance_operations
   \<and> length instance_operations = 12 \<and> distinct instance_operations
   \<and> remdups (method_names Instance) =
       [''init'', ''open'', ''save'', ''close'', ''set'', ''get'', ''write'', ''read'', ''reset'',
        ''create'', ''center'', ''remove'']
   \<and> data_props Instance =
       [(''id'', TString), (''fields'', TVar ''F''), (''title'', TString), (''css'', TString)]
   \<and> map tp_name (i_tparams Instance) = [''F'']
   \<and> map fst (callback_props Instance) = [''onOpen'', ''onSave'', ''onClose'', ''onReset'']
   \<and> construct_sigs Instance = []
   \<and> i_extends Instance = []"
proof -
  have 1: "set (method_names Instance) = set instance_operations"
    unfolding Instance_method_names instance_operations_def by code_simp
  have 2: "length instance_operations = 12 \<and> distinct instance_operations"
    by (simp add: instance_operations_def)
  have 3: "remdups (method_names Instance) =
       [''init'', ''open'', ''save'', ''close'', ''set'', ''get'', ''write'', ''read'', ''reset'',
        ''create'', ''center'', ''remove'']"
    by (simp add: Instance_method_names)
  have 4: "data_props Instance =
       [(''id'', TString), (''fields'', TVar ''F''), (''title'', TString), (''css'', TString)]"
    by (simp add: data_props_def Instance_def OnOpen_def OnSave_def OnClose_def OnReset_def)
  have 5: "map tp_name (i_tparams Instance) = [''F'']"
    by (simp add: Instance_def)
  have 6: "map fst (callback_props Instance) = [''onOpen'', ''onSave'', ''onClose'', ''onReset'']"
    by (simp add: callback_props_def Instance_def OnOpen_def OnSave_def OnClose_def
        OnReset_def)
  have 7: "construct_sigs Instance = []"
    by (simp add: construct_sigs_def Instance_def)
  have 8: "i_extends Instance = []"
    by (simp add: Instance_def)
  from 1 2 3 4 5 6 7 8 show ?thesis by blast
qed

subsection \<open>C6: the type of \<^verbatim>\<open>labelPos\<close>\<close>

text \<open>
  C6 says that \<^verbatim>\<open>labelPos\<close> admits the four positions only.  Both files declare the alias
  \<^verbatim>\<open>LabelPosition\<close> and the comment of \<^verbatim>\<open>Field\<close> names the four values, but \<^verbatim>\<open>Field\<close> gives
  \<^verbatim>\<open>labelPos\<close> the type \<^verbatim>\<open>string\<close>.  What the declarations do at the field
  \<^verbatim>\<open>{ type: 'text', label: 'Name', labelPos: 'diagonal' }\<close>: the string is not a
  \<^verbatim>\<open>LabelPosition\<close>, and the field is a \<^verbatim>\<open>Field\<close> of either file.
\<close>

theorem labelPos_admits_any_string:
  "own_prop Field_decl ''labelPos'' = Some (Prop ''labelPos'' True TString)
   \<and> own_prop Field_part_000 ''labelPos'' = Some (Prop ''labelPos'' True TString)
   \<and> literals GMConfig LabelPosition = Some [''above'', ''below'', ''right'', ''left'']
   \<and> \<not> conforms GMConfig ext (VStr ''diagonal'') LabelPosition
   \<and> conforms_iface GMConfig ext
        (VObj [(''type'', VStr ''text''), (''label'', VStr ''Name''),
               (''labelPos'', VStr ''diagonal'')]) Field_decl []
   \<and> conforms_iface GMConfig_part_000 ext
        (VObj [(''type'', VStr ''text''), (''label'', VStr ''Name''),
               (''labelPos'', VStr ''diagonal'')]) Field_part_000 []"
proof -
  have 1: "own_prop Field_decl ''labelPos'' = Some (Prop ''labelPos'' True TString)"
    by (simp add: own_prop_def Field_decl_def)
  have 2: "own_prop Field_part_000 ''labelPos'' = Some (Prop ''labelPos'' True TString)"
    by (simp add: own_prop_def Field_part_000_def)
  have 3: "literals GMConfig LabelPosition = Some [''above'', ''below'', ''right'', ''left'']"
    by (simp add: LabelPosition_def)
  have 4: "\<not> conforms GMConfig ext (VStr ''diagonal'') LabelPosition"
    by (simp add: LabelPosition_def)
  have 5: "conforms_iface GMConfig ext
        (VObj [(''type'', VStr ''text''), (''label'', VStr ''Name''),
               (''labelPos'', VStr ''diagonal'')]) Field_decl []"
    by (simp add: Field_decl_def Type_def TypeMap_keys obj_get_def del: keys_of.simps)
  have 6: "conforms_iface GMConfig_part_000 ext
        (VObj [(''type'', VStr ''text''), (''label'', VStr ''Name''),
               (''labelPos'', VStr ''diagonal'')]) Field_part_000 []"
    by (simp add: Field_part_000_def Type_part_000_def TypeMap_part_000_keys obj_get_def
        del: keys_of.simps)
  from 1 2 3 4 5 6 show ?thesis by blast
qed

subsection \<open>C7: which variants require \<^verbatim>\<open>default\<close>\<close>

text \<open>
  C7 says that \<^verbatim>\<open>default\<close> may be left out of a field of any variant, as the comment of
  \<^verbatim>\<open>Field\<close> does ("All fields have default values that will be used if you don't include a
  default property").  What the declarations do: \<^verbatim>\<open>{ type: 'text', label: 'Name' }\<close> is not
  a TextField, and becomes one when \<^verbatim>\<open>default\<close> is added.  The property is required in six
  variants and optional in SelectField and RadioField; HiddenField and ButtonField do not
  declare it.
\<close>

theorem default_required_in_TextField:
  "\<not> conforms_iface GMConfig ext
        (VObj [(''type'', VStr ''text''), (''label'', VStr ''Name'')]) TextField []
   \<and> conforms_iface GMConfig ext
        (VObj [(''type'', VStr ''text''), (''label'', VStr ''Name''),
               (''default'', VStr ''Ada'')]) TextField []
   \<and> map i_name (filter (\<lambda>I. list_ex (required_prop ''default'') (i_members I)) fields) =
       [''TextField'', ''TextAreaField'', ''UIntField'', ''IntField'', ''FloatField'',
        ''CheckboxField'']
   \<and> map i_name (filter (\<lambda>I. list_ex (optional_prop ''default'') (i_members I)) fields) =
       [''SelectField'', ''RadioField'']"
proof -
  have 1: "\<not> conforms_iface GMConfig ext
        (VObj [(''type'', VStr ''text''), (''label'', VStr ''Name'')]) TextField []"
    by (simp add: TextField_def obj_get_def)
  have 2: "conforms_iface GMConfig ext
        (VObj [(''type'', VStr ''text''), (''label'', VStr ''Name''),
               (''default'', VStr ''Ada'')]) TextField []"
    by (simp add: TextField_def Field_decl_def Type_def TypeMap_keys obj_get_def
        del: keys_of.simps)
  have 3: "map i_name (filter (\<lambda>I. list_ex (required_prop ''default'') (i_members I)) fields) =
       [''TextField'', ''TextAreaField'', ''UIntField'', ''IntField'', ''FloatField'',
        ''CheckboxField'']"
    by (simp add: fields_def TextField_def TextAreaField_def
      UIntField_def IntField_def FloatField_def CheckboxField_def SelectField_def
      RadioField_def HiddenField_def ButtonField_def)
  have 4: "map i_name (filter (\<lambda>I. list_ex (optional_prop ''default'') (i_members I)) fields) =
       [''SelectField'', ''RadioField'']"
    by (simp add: fields_def TextField_def TextAreaField_def
      UIntField_def IntField_def FloatField_def CheckboxField_def SelectField_def
      RadioField_def HiddenField_def ButtonField_def)
  from 1 2 3 4 show ?thesis by blast
qed

subsection \<open>C8: where the lifecycle callbacks are declared\<close>

text \<open>
  C8 says that each of the five callbacks is an optional member of \<^verbatim>\<open>Events\<close> and a
  property of \<^verbatim>\<open>Instance\<close>.  \<^verbatim>\<open>Instance\<close> declares no \<^verbatim>\<open>onInit\<close>.
\<close>

theorem onInit_not_on_Instance:
  "''onInit'' \<in> set lifecycle_callbacks
   \<and> \<not> list_ex (prop_named ''onInit'') (all_members Instance)
   \<and> \<not> list_all (\<lambda>n. list_ex (optional_prop n) (i_members Events)
                      \<and> list_ex (prop_named n) (all_members Instance)) lifecycle_callbacks"
  by (simp add: lifecycle_callbacks_def Instance_def Events_def)

text \<open>
  C8, as amended.  \<^verbatim>\<open>InitOptions\<close> has the optional member \<^verbatim>\<open>events\<close>, of the type
  \<^verbatim>\<open>Events<InitOptions['fields']>\<close>, and \<^verbatim>\<open>Events\<close> is an interface of the namespace in which
  each of onInit, onOpen, onSave, onClose, onReset is an optional member: read through
  \<^verbatim>\<open>events\<close>, each of the five is its callback type or \<^verbatim>\<open>undefined\<close>.  Of the five,
  \<^verbatim>\<open>Instance\<close> declares onOpen, onSave, onClose and onReset as properties, and no onInit.
\<close>

theorem lifecycle_callbacks_declared:
  "list_ex (optional_prop ''events'') (i_members InitOptions)
   \<and> member_type GMConfig (TNamed ''InitOptions'' []) ''events'' =
       Some (TUnion [TNamed ''Events'' [TIndex (TNamed ''InitOptions'' []) (TLit ''fields'')],
                     TUndefined])
   \<and> lookup_iface GMConfig ''Events'' = Some Events
   \<and> list_all (\<lambda>n. list_ex (optional_prop n) (i_members Events)) lifecycle_callbacks
   \<and> map (member_type GMConfig
             (TNamed ''Events'' [TIndex (TNamed ''InitOptions'' []) (TLit ''fields'')]))
          lifecycle_callbacks =
       [Some (TUnion [OnInit, TUndefined]),
        Some (TUnion [OnOpen, TUndefined]),
        Some (TUnion [OnSave (TIndex (TNamed ''InitOptions'' []) (TLit ''fields'')),
                      TUndefined]),
        Some (TUnion [OnClose, TUndefined]),
        Some (TUnion [OnReset, TUndefined])]
   \<and> filter (\<lambda>n. list_ex (prop_named n) (all_members Instance)) lifecycle_callbacks =
       [''onOpen'', ''onSave'', ''onClose'', ''onReset'']"
proof -
  have 1: "list_ex (optional_prop ''events'') (i_members InitOptions)"
    by (simp add: InitOptions_def)
  have 2: "member_type GMConfig (TNamed ''InitOptions'' []) ''events'' =
       Some (TUnion [TNamed ''Events'' [TIndex (TNamed ''InitOptions'' []) (TLit ''fields'')],
                     TUndefined])"
    by (simp add: members_type_def GMConfig_def lookup_iface_def TypeMap_def Field_decl_def
        Events_def InitOptions_def ConfigFields_def)
  have 3: "lookup_iface GMConfig ''Events'' = Some Events"
    by (simp add: GMConfig_def lookup_iface_def TypeMap_def Field_decl_def Events_def)
  have 4: "list_all (\<lambda>n. list_ex (optional_prop n) (i_members Events)) lifecycle_callbacks"
    by (simp add: lifecycle_callbacks_def Events_def)
  have 5: "map (member_type GMConfig
             (TNamed ''Events'' [TIndex (TNamed ''InitOptions'' []) (TLit ''fields'')]))
          lifecycle_callbacks =
       [Some (TUnion [OnInit, TUndefined]),
        Some (TUnion [OnOpen, TUndefined]),
        Some (TUnion [OnSave (TIndex (TNamed ''InitOptions'' []) (TLit ''fields'')),
                      TUndefined]),
        Some (TUnion [OnClose, TUndefined]),
        Some (TUnion [OnReset, TUndefined])]"
    unfolding member_type.simps 3
    by (simp add: members_type_def lifecycle_callbacks_def Events_def OnInit_def OnOpen_def
        OnSave_def OnClose_def OnReset_def)
  have 6: "filter (\<lambda>n. list_ex (prop_named n) (all_members Instance)) lifecycle_callbacks =
       [''onOpen'', ''onSave'', ''onClose'', ''onReset'']"
    by (simp add: lifecycle_callbacks_def Instance_def)
  from 1 2 3 4 5 6 show ?thesis by blast
qed

subsection \<open>C9: \<^verbatim>\<open>get\<close> may return \<^verbatim>\<open>undefined\<close>\<close>

text \<open>
  C9.  \<^verbatim>\<open>Instance\<close> has one signature \<^verbatim>\<open>get<T>(key: string): T | undefined\<close>.  Every string
  is an admissible key, and at every type argument \<open>T\<close> the result type is
  \<^verbatim>\<open>T | undefined\<close>, which admits \<^verbatim>\<open>undefined\<close>: the declaration promises a stored value for
  no key.
\<close>

theorem get_returns_T_or_undefined:
  "method_sigs Instance ''get'' =
     [TFun [TParam ''T'' None None] [Param ''key'' False TString]
        (TUnion [TVar ''T'', TUndefined])]
   \<and> instantiate (TFun [TParam ''T'' None None] [Param ''key'' False TString]
         (TUnion [TVar ''T'', TUndefined])) [T] = Some (TUnion [T, TUndefined])
   \<and> conforms GMConfig ext (VStr key) TString
   \<and> conforms GMConfig ext VUndefined (TUnion [T, TUndefined])"
  by (simp add: method_sigs_def Instance_def)

subsection \<open>C10: \<^verbatim>\<open>options\<close> is a non-empty list of strings\<close>

text \<open>
  C10.  SelectField and RadioField declare the required property \<^verbatim>\<open>options\<close> with the type
  \<^verbatim>\<open>readonly [string, ...string[]]\<close>.  Every value of either interface has an \<^verbatim>\<open>options\<close>
  property that is an array of strings with at least one element; the empty array is not
  of that type.
\<close>

theorem options_nonempty:
  assumes "I = SelectField \<or> I = RadioField"
    and "conforms_iface GMConfig ext v I []"
  shows "own_prop I ''options'' =
           Some (Prop ''options'' False (TReadonly (TTuple [TString] (Some (TArray TString)))))
       \<and> (\<exists>s ss. obj_get v ''options'' = Some (VArr (map VStr (s # ss))))
       \<and> \<not> conforms GMConfig ext (VArr [])
             (TReadonly (TTuple [TString] (Some (TArray TString))))"
proof -
  let ?T = "TReadonly (TTuple [TString] (Some (TArray TString)))"
  from assms(1) have own: "own_prop I ''options'' = Some (Prop ''options'' False ?T)"
    by (auto simp add: own_prop_def SelectField_def RadioField_def)
  from assms obtain l where c: "conforms GMConfig ext v
      (TObj [Prop ''type'' False (TLit l), Prop ''options'' False ?T,
             Prop ''default'' True TString])"
    by (auto simp add: SelectField_def RadioField_def simp del: conforms.simps)
  have "Prop ''options'' False ?T
      \<in> set [Prop ''type'' False (TLit l), Prop ''options'' False ?T,
             Prop ''default'' True TString]"
    by simp
  from required_member [OF c this] obtain x where
    x: "obj_get v ''options'' = Some x" and cx: "conforms GMConfig ext x ?T"
    by blast
  from nonempty_strings [OF cx] x
  have "\<exists>s ss. obj_get v ''options'' = Some (VArr (map VStr (s # ss)))" by auto
  moreover have "\<not> conforms GMConfig ext (VArr []) ?T" by simp
  ultimately show ?thesis using own by blast
qed

text \<open>
  The select field \<^verbatim>\<open>{ type: 'checkbox', label: 'Colour', options: ['red', 'green'] }\<close> is a
  SelectField, and its options are a non-empty array of strings.
\<close>

theorem options_nonempty_witness:
  "(SelectField = SelectField \<or> SelectField = RadioField)
   \<and> conforms_iface GMConfig (\<lambda>t v. False)
        (VObj [(''type'', VStr ''checkbox''), (''label'', VStr ''Colour''),
               (''options'', VArr [VStr ''red'', VStr ''green''])]) SelectField []
   \<and> (\<exists>s ss. obj_get (VObj [(''type'', VStr ''checkbox''), (''label'', VStr ''Colour''),
               (''options'', VArr [VStr ''red'', VStr ''green''])]) ''options''
          = Some (VArr (map VStr (s # ss))))"
proof -
  let ?v = "VObj [(''type'', VStr ''checkbox''), (''label'', VStr ''Colour''),
               (''options'', VArr [VStr ''red'', VStr ''green''])]"
  have h1: "SelectField = SelectField \<or> SelectField = RadioField" by simp
  have h2: "conforms_iface GMConfig (\<lambda>t v. False) ?v SelectField []"
    by (simp add: SelectField_def Field_decl_def Type_def TypeMap_keys obj_get_def
        del: keys_of.simps)
  from options_nonempty [OF h1 h2] h1 h2 show ?thesis by blast
qed

end
